theory Spec2Isabelle
  imports Main
begin

section \<open>The account coordinator of the GUI main process (gui/src/main/account.ts)\<close>

text \<open>
  The class \<open>Account\<close> keeps four fields and talks to five collaborators: the
  delegate, the daemon RPC client, the account data cache, the scheduler of the expiry
  notification and the IPC channel. A method is modelled as a function from the state of
  the object to the list of calls it makes on its collaborators, in program order, and the
  state it leaves. What a method reads from outside (the clock, the delegate's getters,
  the answers of the notification providers, the translation catalogue) comes in an
  environment record. An \<open>async\<close> method takes the outcome of the service call it awaits as
  an argument and returns the outcome its caller observes. No such method reads a field
  of the object after its \<open>await\<close>, so one state argument serves both for what the
  method reads when it is called and for what it writes when the call has settled.

  What a collaborator does with a call is not part of the class: a delivery of the cache,
  the firing of the scheduler and the settlement of a request are inputs of their own.
  The handlers of \<open>registerIpcListeners\<close> that only pass a request on to the daemon
  (\<open>getWwwAuthToken\<close>, \<open>getDeviceState\<close>, \<open>listDevices\<close>, \<open>removeDevice\<close>) touch no
  field of the object and are left out.
\<close>

subsection \<open>Data\<close>

type_synonym account_token = string

text \<open>
  Modelled from the spec: the declarations of \<open>IAccountData\<close>, \<open>DeviceState\<close>,
  \<open>DeviceEvent\<close> and \<open>TunnelState\<close> (shared/daemon-rpc-types) are not part of the
  sources at hand. The account data carry an expiry timestamp; it is kept as the number
  of milliseconds that \<open>new Date(expiry).getTime()\<close> yields, an integer (an expiry
  that is no date at all is outside the model). The device state is a tagged variant
  with the cases logged in (with the account and the device), logged out and revoked.
  Of a tunnel state the code reads the field \<open>state\<close> only, a string.
\<close>

record account_data =
  expiry :: int

record account_and_device =
  accountToken :: account_token
  device :: string

datatype device_state =
    LoggedIn account_and_device
  | LoggedOut
  | Revoked

record device_event =
  deviceState :: device_state

record tunnel_state =
  state :: string

text \<open>
  The errors a rejected promise carries: a plain \<open>Error\<close>, the \<open>InvalidAccountError\<close>
  of main/errors, or an object of any other class, given by the name of its class.
\<close>

datatype js_error =
    Error string
  | InvalidAccountError string
  | OtherError string string

fun message :: "js_error \<Rightarrow> string" where
  "message (Error m) = m"
| "message (InvalidAccountError m) = m"
| "message (OtherError c m) = m"

text \<open>The system notifications, each with the arguments its provider was built from.\<close>

datatype system_notification =
    AccountExpiredNotification int tunnel_state
  | CloseToAccountExpiryNotification int string

text \<open>The one callback the class ever hands to its scheduler.\<close>

datatype scheduled_action = HandleAccountExpiry

text \<open>
  Modelled from the spec: the declaration of the voucher response of the daemon is not
  part of the sources at hand. The class passes a response on without looking into it;
  its content is kept as an opaque string.
\<close>

datatype voucher_response = VoucherResponse string

text \<open>The calls on the collaborators.\<close>

datatype effect =
    DelegateNotify system_notification
  | DelegatePerformPostUpgradeCheck
  | DelegateSetTrayContextMenu
  | CacheFetch account_token
  | CacheInvalidate
  | CacheHandleVoucherResponse account_token voucher_response
  | SchedulerCancel
  | SchedulerSchedule scheduled_action int
  | RpcCreateNewAccount
  | RpcLoginAccount account_token
  | RpcLogoutAccount
  | RpcSubmitVoucher string
  | RpcGetAccountHistory
  | RpcClearAccountHistory
  | IpcAccountNotify "account_data option"
  | IpcAccountNotifyDevice device_event
  | IpcAccountHistoryNotify "account_token option"
  | LogInfo string
  | LogError string

subsection \<open>The scheduler\<close>

text \<open>
  Modelled from the spec: the class \<open>Scheduler\<close> (shared/scheduler) is not part of the
  sources at hand. By its contract it holds at most one pending callback: \<open>schedule\<close>
  replaces whatever is pending, \<open>cancel\<close> leaves nothing pending and may be called when
  nothing is, \<open>isRunning\<close> tells whether a callback is pending.
\<close>

type_synonym scheduler = "(scheduled_action \<times> int) option"

definition schedule :: "scheduled_action \<Rightarrow> int \<Rightarrow> scheduler \<Rightarrow> scheduler" where
  "schedule action delay s = Some (action, delay)"

definition cancel :: "scheduler \<Rightarrow> scheduler" where
  "cancel s = None"

definition isRunning :: "scheduler \<Rightarrow> bool" where
  "isRunning s = (case s of None \<Rightarrow> False | Some p \<Rightarrow> True)"

subsection \<open>The state of the object and its environment\<close>

record account =
  accountDataValue :: "account_data option"
  accountHistoryValue :: "account_token option"
  accountExpiryNotificationScheduler :: scheduler
  deviceStateValue :: "device_state option"

text \<open>
  What a method reads from outside the object while it runs. \<open>dateNow\<close> is what the
  one reading of the clock in the method returns, in milliseconds. \<open>expiredMayDisplay\<close>
  and \<open>closeToExpiryMayDisplay\<close> are the answers of \<open>mayDisplay()\<close> of the two
  notification providers (shared/notifications), as functions of the arguments the
  provider is built from. \<open>gettext\<close> is the translation catalogue, \<open>isConnected\<close> the
  flag of the daemon RPC client.
\<close>

record env =
  dateNow :: int
  getTunnelState :: tunnel_state
  getLocale :: string
  isPerformingPostUpgradeCheck :: bool
  isConnected :: bool
  expiredMayDisplay :: "int \<Rightarrow> tunnel_state \<Rightarrow> bool"
  closeToExpiryMayDisplay :: "int \<Rightarrow> string \<Rightarrow> bool"
  gettext :: "string \<Rightarrow> string"

subsection \<open>The expiry notification policy\<close>

text \<open>\<open>Account.handleAccountExpiry\<close> (lines 190 to 216).\<close>

definition handleAccountExpiry :: "env \<Rightarrow> account \<Rightarrow> effect list \<times> account" where
  "handleAccountExpiry e a =
     (case accountDataValue a of
        None \<Rightarrow> ([], a)
      | Some accountData \<Rightarrow>
          if expiredMayDisplay e (expiry accountData) (getTunnelState e) then
            ([SchedulerCancel,
              DelegateNotify (AccountExpiredNotification (expiry accountData) (getTunnelState e))],
             a\<lparr>accountExpiryNotificationScheduler :=
                 cancel (accountExpiryNotificationScheduler a)\<rparr>)
          else if \<not> isRunning (accountExpiryNotificationScheduler a)
                  \<and> closeToExpiryMayDisplay e (expiry accountData) (getLocale e) then
            (let twelveHours = 12 * 60 * 60 * 1000;
                 remainingMilliseconds = expiry accountData - dateNow e;
                 delay = min twelveHours remainingMilliseconds
             in ([DelegateNotify
                    (CloseToAccountExpiryNotification (expiry accountData) (getLocale e)),
                  SchedulerSchedule HandleAccountExpiry delay],
                 a\<lparr>accountExpiryNotificationScheduler :=
                     schedule HandleAccountExpiry delay (accountExpiryNotificationScheduler a)\<rparr>))
          else ([], a))"

text \<open>
  The callback the class gives to its account data cache (lines 39 to 45): the cache
  calls it with the account data it has obtained, or with nothing.
\<close>

definition accountDataCacheUpdate ::
    "env \<Rightarrow> account_data option \<Rightarrow> account \<Rightarrow> effect list \<times> account" where
  "accountDataCacheUpdate e accountData a =
     (let a1 = a\<lparr>accountDataValue := accountData\<rparr>
      in case handleAccountExpiry e a1 of
           (es, a2) \<Rightarrow> (IpcAccountNotify (accountDataValue a1) # es, a2))"

text \<open>
  Modelled from the spec: when the timer of the scheduler fires, the callback is no longer
  pending and the scheduled action runs.
\<close>

definition schedulerFired :: "env \<Rightarrow> account \<Rightarrow> effect list \<times> account" where
  "schedulerFired e a =
     (case accountExpiryNotificationScheduler a of
        None \<Rightarrow> ([], a)
      | Some (HandleAccountExpiry, delay) \<Rightarrow>
          handleAccountExpiry e (a\<lparr>accountExpiryNotificationScheduler := None\<rparr>))"

subsection \<open>Getters\<close>

text \<open>\<open>Account.isLoggedIn\<close> (line 103) and \<open>Account.getAccountToken\<close> (line 227).\<close>

definition isLoggedIn :: "account \<Rightarrow> bool" where
  "isLoggedIn a =
     (case deviceStateValue a of
        Some (LoggedIn accountAndDevice) \<Rightarrow> True
      | _ \<Rightarrow> False)"

definition getAccountToken :: "account \<Rightarrow> account_token option" where
  "getAccountToken a =
     (case deviceStateValue a of
        Some (LoggedIn accountAndDevice) \<Rightarrow> Some (accountToken accountAndDevice)
      | _ \<Rightarrow> None)"

text \<open>
  The test \<open>if (currentAccountToken)\<close> of line 73 is JavaScript's truthiness of a value
  that is a string or undefined: the empty string is falsy, as undefined is.
\<close>

definition truthy :: "account_token option \<Rightarrow> bool" where
  "truthy t = (case t of None \<Rightarrow> False | Some s \<Rightarrow> s \<noteq> [])"

subsection \<open>Account data\<close>

text \<open>
  \<open>Account.updateAccountData\<close> (line 107). The token is read with a non-null assertion;
  it is present whenever \<open>isLoggedIn\<close> holds, so the second branch is never taken.
\<close>

definition updateAccountData :: "env \<Rightarrow> account \<Rightarrow> effect list \<times> account" where
  "updateAccountData e a =
     (if isConnected e \<and> isLoggedIn a then
        (case getAccountToken a of
           Some t \<Rightarrow> ([CacheFetch t], a)
         | None \<Rightarrow> ([], a))
      else ([], a))"

text \<open>\<open>Account.detectStaleAccountExpiry\<close> (lines 113 to 121).\<close>

definition detectStaleAccountExpiry ::
    "env \<Rightarrow> tunnel_state \<Rightarrow> account \<Rightarrow> effect list \<times> account" where
  "detectStaleAccountExpiry e tunnelState a =
     (let hasExpired =
            (case accountDataValue a of
               None \<Rightarrow> True
             | Some accountData \<Rightarrow> dateNow e \<ge> expiry accountData)
      in if state tunnelState = ''connected'' \<and> hasExpired then
           ([LogInfo ''Detected the stale account expiry.'', CacheInvalidate], a)
         else ([], a))"

subsection \<open>Device events and the account history\<close>

text \<open>\<open>Account.setAccountHistory\<close> (lines 146 to 150).\<close>

definition setAccountHistory ::
    "account_token option \<Rightarrow> account \<Rightarrow> effect list \<times> account" where
  "setAccountHistory accountHistory a =
     ([IpcAccountHistoryNotify accountHistory], a\<lparr>accountHistoryValue := accountHistory\<rparr>)"

text \<open>
  \<open>Account.updateAccountHistory\<close> (lines 218 to 225) is called without being awaited.
  The call runs the method up to its \<open>await\<close>, which sends the request to the daemon;
  the rest runs when the daemon has answered, as a task of its own.
\<close>

definition updateAccountHistoryCall :: "effect list" where
  "updateAccountHistoryCall = [RpcGetAccountHistory]"

definition updateAccountHistorySettled ::
    "js_error + account_token option \<Rightarrow> account \<Rightarrow> effect list \<times> account" where
  "updateAccountHistorySettled rpc a =
     (case rpc of
        Inr accountHistory \<Rightarrow> setAccountHistory accountHistory a
      | Inl error \<Rightarrow>
          ([LogError (''Failed to fetch the account history: '' @ message error)], a))"

text \<open>\<open>Account.handleDeviceEvent\<close> (lines 123 to 144).\<close>

definition handleDeviceEvent ::
    "env \<Rightarrow> device_event \<Rightarrow> account \<Rightarrow> effect list \<times> account" where
  "handleDeviceEvent e deviceEvent a =
     ((if isPerformingPostUpgradeCheck e then [DelegatePerformPostUpgradeCheck] else [])
      @ (case deviceState deviceEvent of
           LoggedIn accountAndDevice \<Rightarrow> [CacheFetch (accountToken accountAndDevice)]
         | LoggedOut \<Rightarrow> [CacheInvalidate]
         | Revoked \<Rightarrow> [CacheInvalidate])
      @ updateAccountHistoryCall
      @ [DelegateSetTrayContextMenu, IpcAccountNotifyDevice deviceEvent],
      a\<lparr>deviceStateValue := Some (deviceState deviceEvent)\<rparr>)"

subsection \<open>The commands of the user\<close>

text \<open>\<open>Account.createNewAccount\<close> (lines 152 to 160).\<close>

definition createNewAccount ::
    "js_error + string \<Rightarrow> account \<Rightarrow> (js_error + string) \<times> effect list \<times> account" where
  "createNewAccount rpc a =
     (case rpc of
        Inr token \<Rightarrow> (Inr token, [RpcCreateNewAccount], a)
      | Inl error \<Rightarrow>
          (Inl error,
           [RpcCreateNewAccount, LogError (''Failed to create account: '' @ message error)],
           a))"

text \<open>\<open>Account.login\<close> (lines 162 to 175).\<close>

definition login ::
    "env \<Rightarrow> account_token \<Rightarrow> js_error + unit \<Rightarrow> account
       \<Rightarrow> (js_error + unit) \<times> effect list \<times> account" where
  "login e token rpc a =
     (case rpc of
        Inr u \<Rightarrow> (Inr (), [RpcLoginAccount token], a)
      | Inl error \<Rightarrow>
          (case error of
             InvalidAccountError m \<Rightarrow> Inl (Error (gettext e ''Invalid account number''))
           | _ \<Rightarrow> Inl error,
           [RpcLoginAccount token, LogError (''Failed to login: '' @ message error)],
           a))"

text \<open>\<open>Account.logout\<close> (lines 177 to 188).\<close>

definition logout ::
    "js_error + unit \<Rightarrow> account \<Rightarrow> (js_error + unit) \<times> effect list \<times> account" where
  "logout rpc a =
     (case rpc of
        Inr u \<Rightarrow>
          (Inr (), [RpcLogoutAccount, SchedulerCancel],
           a\<lparr>accountExpiryNotificationScheduler :=
               cancel (accountExpiryNotificationScheduler a)\<rparr>)
      | Inl error \<Rightarrow>
          (Inl error,
           [RpcLogoutAccount, LogInfo (''Failed to logout: '' @ message error)],
           a))"

text \<open>
  The handler of \<open>submitVoucher\<close> that \<open>registerIpcListeners\<close> installs (lines 69 to 78).
  The account token is read before the request is sent.
\<close>

definition handleSubmitVoucher ::
    "string \<Rightarrow> js_error + voucher_response \<Rightarrow> account \<Rightarrow> (js_error + voucher_response) \<times> effect list \<times> account" where
  "handleSubmitVoucher voucherCode rpc a =
     (let currentAccountToken = getAccountToken a
      in case rpc of
           Inl error \<Rightarrow> (Inl error, [RpcSubmitVoucher voucherCode], a)
         | Inr response \<Rightarrow>
             (Inr response,
              RpcSubmitVoucher voucherCode
                # (if truthy currentAccountToken then
                     (case currentAccountToken of
                        Some t \<Rightarrow> [CacheHandleVoucherResponse t response]
                      | None \<Rightarrow> [])
                   else []),
              a))"

text \<open>The handler of \<open>accountHistory.clear\<close> (lines 81 to 84).\<close>

definition handleClearAccountHistory ::
    "js_error + unit \<Rightarrow> account \<Rightarrow> (js_error + unit) \<times> effect list \<times> account" where
  "handleClearAccountHistory rpc a =
     (case rpc of
        Inr u \<Rightarrow> (Inr (), RpcClearAccountHistory # updateAccountHistoryCall, a)
      | Inl error \<Rightarrow> (Inl error, [RpcClearAccountHistory], a))"

subsection \<open>Reading a list of calls\<close>

fun isNotify :: "effect \<Rightarrow> bool" where
  "isNotify (DelegateNotify n) = True"
| "isNotify _ = False"

fun isSchedulerSchedule :: "effect \<Rightarrow> bool" where
  "isSchedulerSchedule (SchedulerSchedule action delay) = True"
| "isSchedulerSchedule _ = False"


fun isCacheCall :: "effect \<Rightarrow> bool" where
  "isCacheCall (CacheFetch t) = True"
| "isCacheCall CacheInvalidate = True"
| "isCacheCall (CacheHandleVoucherResponse t r) = True"
| "isCacheCall _ = False"

text \<open>\<open>issuedBefore x y es\<close>: the call \<open>x\<close> is made before the first call \<open>y\<close>.\<close>

definition issuedBefore :: "'a \<Rightarrow> 'a \<Rightarrow> 'a list \<Rightarrow> bool" where
  "issuedBefore x y es = (x \<in> set (takeWhile (\<lambda>z. z \<noteq> y) es) \<and> y \<in> set es)"

subsection \<open>Sequences of tasks\<close>

text \<open>
  The event loop runs one task at a time. A task is a device event from the daemon, a
  delivery of the account data cache, the firing of the scheduler, the settlement of a
  history request, or one of the calls made from outside the class.
\<close>

datatype task =
    DeviceEventTask env device_event
  | CacheUpdateTask env "account_data option"
  | SchedulerFiredTask env
  | AccountHistorySettledTask "js_error + account_token option"
  | UpdateAccountDataTask env
  | DetectStaleAccountExpiryTask env tunnel_state
  | SetAccountHistoryTask "account_token option"
  | CreateNewAccountTask "js_error + string"
  | LoginTask env account_token "js_error + unit"
  | LogoutTask "js_error + unit"
  | SubmitVoucherTask string "js_error + voucher_response"
  | ClearAccountHistoryTask "js_error + unit"

fun runTask :: "task \<Rightarrow> account \<Rightarrow> effect list \<times> account" where
  "runTask (DeviceEventTask e deviceEvent) a = handleDeviceEvent e deviceEvent a"
| "runTask (CacheUpdateTask e accountData) a = accountDataCacheUpdate e accountData a"
| "runTask (SchedulerFiredTask e) a = schedulerFired e a"
| "runTask (AccountHistorySettledTask rpc) a = updateAccountHistorySettled rpc a"
| "runTask (UpdateAccountDataTask e) a = updateAccountData e a"
| "runTask (DetectStaleAccountExpiryTask e tunnelState) a =
     detectStaleAccountExpiry e tunnelState a"
| "runTask (SetAccountHistoryTask accountHistory) a = setAccountHistory accountHistory a"
| "runTask (CreateNewAccountTask rpc) a = snd (createNewAccount rpc a)"
| "runTask (LoginTask e token rpc) a = snd (login e token rpc a)"
| "runTask (LogoutTask rpc) a = snd (logout rpc a)"
| "runTask (SubmitVoucherTask voucherCode rpc) a = snd (handleSubmitVoucher voucherCode rpc a)"
| "runTask (ClearAccountHistoryTask rpc) a = snd (handleClearAccountHistory rpc a)"

fun runTasks :: "task list \<Rightarrow> account \<Rightarrow> effect list \<times> account" where
  "runTasks [] a = ([], a)"
| "runTasks (t # ts) a =
     (case runTask t a of
        (es, a1) \<Rightarrow> (case runTasks ts a1 of (es', a2) \<Rightarrow> (es @ es', a2)))"

text \<open>
  The device state of the last device event among the tasks, or \<open>ds\<close> when there is none.
\<close>

fun lastDeviceState :: "task list \<Rightarrow> device_state option \<Rightarrow> device_state option" where
  "lastDeviceState [] ds = ds"
| "lastDeviceState (DeviceEventTask e deviceEvent # ts) ds =
     lastDeviceState ts (Some (deviceState deviceEvent))"
| "lastDeviceState (t # ts) ds = lastDeviceState ts ds"

fun isDeviceEventTask :: "task \<Rightarrow> bool" where
  "isDeviceEventTask (DeviceEventTask e deviceEvent) = True"
| "isDeviceEventTask _ = False"

text \<open>The tasks of a sequence of device events, each with the environment it meets.\<close>

definition deviceEventTasks :: "(env \<times> device_event) list \<Rightarrow> task list" where
  "deviceEventTasks evs = map (\<lambda>(e, deviceEvent). DeviceEventTask e deviceEvent) evs"

subsection \<open>Concrete inputs\<close>

text \<open>
  An environment at the time \<open>t\<close> whose two providers answer \<open>expired\<close> and
  \<open>closeToExpiry\<close>, a state of the object with the given account data, schedule and
  device state, and the device state of a device logged in to the account \<open>t\<close>. They
  are the inputs of the examples below.
\<close>

abbreviation envAt :: "int \<Rightarrow> bool \<Rightarrow> bool \<Rightarrow> env" where
  "envAt t expired closeToExpiry \<equiv>
     \<lparr>dateNow = t, getTunnelState = \<lparr>state = ''disconnected''\<rparr>, getLocale = ''en'',
      isPerformingPostUpgradeCheck = False, isConnected = True,
      expiredMayDisplay = (\<lambda>x ts. expired), closeToExpiryMayDisplay = (\<lambda>x l. closeToExpiry),
      gettext = (\<lambda>s. s)\<rparr>"

abbreviation accountWith ::
    "account_data option \<Rightarrow> scheduler \<Rightarrow> device_state option \<Rightarrow> account" where
  "accountWith d s ds \<equiv>
     \<lparr>accountDataValue = d, accountHistoryValue = None,
      accountExpiryNotificationScheduler = s, deviceStateValue = ds\<rparr>"

abbreviation loggedInAs :: "account_token \<Rightarrow> device_state" where
  "loggedInAs t \<equiv> LoggedIn \<lparr>accountToken = t, device = ''laptop''\<rparr>"

section \<open>The expiry notification policy\<close>

text \<open>
  C1. Whenever \<open>handleAccountExpiry\<close> runs with account data present and
  \<open>mayDisplay()\<close> of the provider of the expired notification true, it first cancels
  the schedule, then hands exactly one notification to the delegate, the expired one,
  and arms no schedule: it makes no call of \<open>schedule\<close>, and no callback is pending
  afterwards. Nothing else in the state changes.
\<close>

theorem handleAccountExpiry_expired:
  assumes "accountDataValue a = Some d"
    and "expiredMayDisplay e (expiry d) (getTunnelState e)"
  shows "fst (handleAccountExpiry e a) =
           [SchedulerCancel,
            DelegateNotify (AccountExpiredNotification (expiry d) (getTunnelState e))]
       \<and> filter isNotify (fst (handleAccountExpiry e a)) =
           [DelegateNotify (AccountExpiredNotification (expiry d) (getTunnelState e))]
       \<and> filter isSchedulerSchedule (fst (handleAccountExpiry e a)) = []
       \<and> issuedBefore SchedulerCancel
           (DelegateNotify (AccountExpiredNotification (expiry d) (getTunnelState e)))
           (fst (handleAccountExpiry e a))
       \<and> \<not> isRunning (accountExpiryNotificationScheduler (snd (handleAccountExpiry e a)))
       \<and> snd (handleAccountExpiry e a) = a\<lparr>accountExpiryNotificationScheduler := None\<rparr>"
  using assms
  by (simp add: handleAccountExpiry_def cancel_def isRunning_def issuedBefore_def)

theorem handleAccountExpiry_expired_witness:
  "accountDataValue
     (accountWith (Some \<lparr>expiry = 1000\<rparr>) (Some (HandleAccountExpiry, 5000)) None)
     = Some \<lparr>expiry = 1000\<rparr>
   \<and> expiredMayDisplay (envAt 2000 True True) (expiry \<lparr>expiry = 1000\<rparr>)
        (getTunnelState (envAt 2000 True True))
   \<and> handleAccountExpiry (envAt 2000 True True)
        (accountWith (Some \<lparr>expiry = 1000\<rparr>) (Some (HandleAccountExpiry, 5000)) None)
      = ([SchedulerCancel,
          DelegateNotify (AccountExpiredNotification 1000 \<lparr>state = ''disconnected''\<rparr>)],
         accountWith (Some \<lparr>expiry = 1000\<rparr>) None None)"
  using handleAccountExpiry_expired
    [where a = "accountWith (Some \<lparr>expiry = 1000\<rparr>) (Some (HandleAccountExpiry, 5000)) None"
       and d = "\<lparr>expiry = 1000\<rparr>" and e = "envAt 2000 True True"]
  by (simp add: prod_eq_iff)

text \<open>
  The two equations of \<open>handleAccountExpiry\<close> for account data whose expired
  notification may not be displayed.
\<close>

lemma handleAccountExpiry_arms:
  assumes "accountDataValue a = Some d"
    and "\<not> expiredMayDisplay e (expiry d) (getTunnelState e)"
    and "\<not> isRunning (accountExpiryNotificationScheduler a)"
    and "closeToExpiryMayDisplay e (expiry d) (getLocale e)"
  shows "handleAccountExpiry e a =
           ([DelegateNotify (CloseToAccountExpiryNotification (expiry d) (getLocale e)),
             SchedulerSchedule HandleAccountExpiry (min 43200000 (expiry d - dateNow e))],
            a\<lparr>accountExpiryNotificationScheduler :=
                Some (HandleAccountExpiry, min 43200000 (expiry d - dateNow e))\<rparr>)"
  using assms by (simp add: handleAccountExpiry_def schedule_def Let_def)

lemma handleAccountExpiry_armed:
  assumes "accountDataValue a = Some d"
    and "\<not> expiredMayDisplay e (expiry d) (getTunnelState e)"
    and "isRunning (accountExpiryNotificationScheduler a)"
  shows "handleAccountExpiry e a = ([], a)"
  using assms by (simp add: handleAccountExpiry_def)

text \<open>
  C2. Whenever \<open>handleAccountExpiry\<close> runs with account data present and
  \<open>mayDisplay()\<close> of the provider of the expired notification false: if no callback is
  pending and \<open>mayDisplay()\<close> of the provider of the close-to-expiry notification is
  true, it hands exactly one notification to the delegate, the close-to-expiry one, and
  then schedules \<open>handleAccountExpiry\<close> again after the minimum of twelve hours and
  the time left to the expiry, in milliseconds: 90 minutes when the expiry is 90 minutes
  ahead, twelve hours when it is 20 hours ahead. If a callback is pending, it makes no
  call at all and leaves the state as it is.
\<close>

theorem handleAccountExpiry_closeToExpiry:
  assumes "accountDataValue a = Some d"
    and "\<not> expiredMayDisplay e (expiry d) (getTunnelState e)"
  shows "(\<not> isRunning (accountExpiryNotificationScheduler a)
            \<and> closeToExpiryMayDisplay e (expiry d) (getLocale e) \<longrightarrow>
          fst (handleAccountExpiry e a) =
            [DelegateNotify (CloseToAccountExpiryNotification (expiry d) (getLocale e)),
             SchedulerSchedule HandleAccountExpiry
               (min (12 * 60 * 60 * 1000) (expiry d - dateNow e))]
          \<and> filter isNotify (fst (handleAccountExpiry e a)) =
            [DelegateNotify (CloseToAccountExpiryNotification (expiry d) (getLocale e))]
          \<and> snd (handleAccountExpiry e a) =
              a\<lparr>accountExpiryNotificationScheduler :=
                  Some (HandleAccountExpiry, min (12 * 60 * 60 * 1000) (expiry d - dateNow e))\<rparr>
          \<and> (expiry d - dateNow e = 90 * 60 * 1000 \<longrightarrow>
               accountExpiryNotificationScheduler (snd (handleAccountExpiry e a)) =
                 Some (HandleAccountExpiry, 90 * 60 * 1000))
          \<and> (expiry d - dateNow e = 20 * 60 * 60 * 1000 \<longrightarrow>
               accountExpiryNotificationScheduler (snd (handleAccountExpiry e a)) =
                 Some (HandleAccountExpiry, 12 * 60 * 60 * 1000)))
       \<and> (isRunning (accountExpiryNotificationScheduler a) \<longrightarrow>
            handleAccountExpiry e a = ([], a))"
proof (intro conjI impI)
  assume "isRunning (accountExpiryNotificationScheduler a)"
  with assms show "handleAccountExpiry e a = ([], a)"
    by (rule handleAccountExpiry_armed)
next
  assume c: "\<not> isRunning (accountExpiryNotificationScheduler a)
             \<and> closeToExpiryMayDisplay e (expiry d) (getLocale e)"
  with assms have r: "handleAccountExpiry e a =
           ([DelegateNotify (CloseToAccountExpiryNotification (expiry d) (getLocale e)),
             SchedulerSchedule HandleAccountExpiry (min 43200000 (expiry d - dateNow e))],
            a\<lparr>accountExpiryNotificationScheduler :=
                Some (HandleAccountExpiry, min 43200000 (expiry d - dateNow e))\<rparr>)"
    by (simp add: handleAccountExpiry_arms)
  show "fst (handleAccountExpiry e a) =
            [DelegateNotify (CloseToAccountExpiryNotification (expiry d) (getLocale e)),
             SchedulerSchedule HandleAccountExpiry
               (min (12 * 60 * 60 * 1000) (expiry d - dateNow e))]"
    by (simp add: r)
  show "filter isNotify (fst (handleAccountExpiry e a)) =
            [DelegateNotify (CloseToAccountExpiryNotification (expiry d) (getLocale e))]"
    by (simp add: r)
  show "snd (handleAccountExpiry e a) =
              a\<lparr>accountExpiryNotificationScheduler :=
                  Some (HandleAccountExpiry, min (12 * 60 * 60 * 1000) (expiry d - dateNow e))\<rparr>"
    by (simp add: r)
  {
    assume "expiry d - dateNow e = 90 * 60 * 1000"
    then show "accountExpiryNotificationScheduler (snd (handleAccountExpiry e a)) =
                 Some (HandleAccountExpiry, 90 * 60 * 1000)"
      by (simp add: r)
  }
  {
    assume "expiry d - dateNow e = 20 * 60 * 60 * 1000"
    then show "accountExpiryNotificationScheduler (snd (handleAccountExpiry e a)) =
                 Some (HandleAccountExpiry, 12 * 60 * 60 * 1000)"
      by (simp add: r)
  }
qed

theorem handleAccountExpiry_closeToExpiry_witness:
  "accountDataValue (accountWith (Some \<lparr>expiry = 5401000\<rparr>) None None)
     = Some \<lparr>expiry = 5401000\<rparr>
   \<and> \<not> expiredMayDisplay (envAt 1000 False True) (expiry \<lparr>expiry = 5401000\<rparr>)
        (getTunnelState (envAt 1000 False True))
   \<and> \<not> isRunning (accountExpiryNotificationScheduler
        (accountWith (Some \<lparr>expiry = 5401000\<rparr>) None None))
   \<and> closeToExpiryMayDisplay (envAt 1000 False True) (expiry \<lparr>expiry = 5401000\<rparr>)
        (getLocale (envAt 1000 False True))
   \<and> expiry \<lparr>expiry = 5401000\<rparr> - dateNow (envAt 1000 False True) = 90 * 60 * 1000
   \<and> handleAccountExpiry (envAt 1000 False True)
        (accountWith (Some \<lparr>expiry = 5401000\<rparr>) None None)
      = ([DelegateNotify (CloseToAccountExpiryNotification 5401000 ''en''),
          SchedulerSchedule HandleAccountExpiry 5400000],
         accountWith (Some \<lparr>expiry = 5401000\<rparr>) (Some (HandleAccountExpiry, 5400000)) None)
   \<and> expiry \<lparr>expiry = 72001000\<rparr> - dateNow (envAt 1000 False True) = 20 * 60 * 60 * 1000
   \<and> handleAccountExpiry (envAt 1000 False True)
        (accountWith (Some \<lparr>expiry = 72001000\<rparr>) None None)
      = ([DelegateNotify (CloseToAccountExpiryNotification 72001000 ''en''),
          SchedulerSchedule HandleAccountExpiry 43200000],
         accountWith (Some \<lparr>expiry = 72001000\<rparr>) (Some (HandleAccountExpiry, 43200000)) None)
   \<and> isRunning (accountExpiryNotificationScheduler
        (accountWith (Some \<lparr>expiry = 5401000\<rparr>) (Some (HandleAccountExpiry, 5400000)) None))
   \<and> handleAccountExpiry (envAt 1000 False True)
        (accountWith (Some \<lparr>expiry = 5401000\<rparr>) (Some (HandleAccountExpiry, 5400000)) None)
      = ([], accountWith (Some \<lparr>expiry = 5401000\<rparr>) (Some (HandleAccountExpiry, 5400000)) None)"
  using handleAccountExpiry_closeToExpiry
    [where a = "accountWith (Some \<lparr>expiry = 5401000\<rparr>) None None"
       and d = "\<lparr>expiry = 5401000\<rparr>" and e = "envAt 1000 False True"]
    handleAccountExpiry_closeToExpiry
    [where a = "accountWith (Some \<lparr>expiry = 72001000\<rparr>) None None"
       and d = "\<lparr>expiry = 72001000\<rparr>" and e = "envAt 1000 False True"]
    handleAccountExpiry_closeToExpiry
    [where a = "accountWith (Some \<lparr>expiry = 5401000\<rparr>) (Some (HandleAccountExpiry, 5400000)) None"
       and d = "\<lparr>expiry = 5401000\<rparr>" and e = "envAt 1000 False True"]
  by (simp add: isRunning_def prod_eq_iff)

text \<open>
  C10. Whenever \<open>handleAccountExpiry\<close> runs with no account data stored, it makes no
  call on any collaborator and leaves the state as it is: no notification, no
  cancellation, no new schedule. A callback that was pending stays pending.
\<close>

theorem handleAccountExpiry_without_account_data:
  assumes "accountDataValue a = None"
  shows "handleAccountExpiry e a = ([], a)"
  using assms by (simp add: handleAccountExpiry_def)

theorem handleAccountExpiry_without_account_data_witness:
  "accountDataValue (accountWith None (Some (HandleAccountExpiry, 5000)) None) = None
   \<and> handleAccountExpiry (envAt 1000 True True)
        (accountWith None (Some (HandleAccountExpiry, 5000)) None)
      = ([], accountWith None (Some (HandleAccountExpiry, 5000)) None)
   \<and> isRunning (accountExpiryNotificationScheduler
        (snd (handleAccountExpiry (envAt 1000 True True)
           (accountWith None (Some (HandleAccountExpiry, 5000)) None))))"
  using handleAccountExpiry_without_account_data
    [where a = "accountWith None (Some (HandleAccountExpiry, 5000)) None"
       and e = "envAt 1000 True True"]
  by (simp add: isRunning_def)

section \<open>Stale account expiry\<close>

text \<open>
  C3. For every tunnel state and whatever account data are stored,
  \<open>detectStaleAccountExpiry\<close> calls \<open>invalidate\<close> on the cache if and only if the
  tunnel state is \<open>connected\<close> and either no account data are stored or the stored
  expiry is not later than the current time. When the tunnel is not connected it makes
  no call at all, whatever the expiry. It makes at most one call on the cache and
  leaves the state as it is.
\<close>

theorem detectStaleAccountExpiry_invalidates:
  "(CacheInvalidate \<in> set (fst (detectStaleAccountExpiry e tunnelState a)))
     = (state tunnelState = ''connected''
        \<and> (accountDataValue a = None
           \<or> (\<exists>d. accountDataValue a = Some d \<and> expiry d \<le> dateNow e)))
   \<and> (state tunnelState \<noteq> ''connected'' \<longrightarrow>
        fst (detectStaleAccountExpiry e tunnelState a) = [])
   \<and> length (filter isCacheCall (fst (detectStaleAccountExpiry e tunnelState a))) \<le> 1
   \<and> snd (detectStaleAccountExpiry e tunnelState a) = a"
  by (cases "accountDataValue a") (simp_all add: detectStaleAccountExpiry_def)

theorem detectStaleAccountExpiry_invalidates_witness:
  "state \<lparr>state = ''disconnected''\<rparr> \<noteq> ''connected''
   \<and> detectStaleAccountExpiry (envAt 2000 True True) \<lparr>state = ''disconnected''\<rparr>
        (accountWith (Some \<lparr>expiry = 1000\<rparr>) None None)
      = ([], accountWith (Some \<lparr>expiry = 1000\<rparr>) None None)
   \<and> CacheInvalidate \<in> set (fst (detectStaleAccountExpiry (envAt 2000 True True)
        \<lparr>state = ''connected''\<rparr> (accountWith (Some \<lparr>expiry = 2000\<rparr>) None None)))
   \<and> CacheInvalidate \<in> set (fst (detectStaleAccountExpiry (envAt 2000 True True)
        \<lparr>state = ''connected''\<rparr> (accountWith None None None)))
   \<and> CacheInvalidate \<notin> set (fst (detectStaleAccountExpiry (envAt 2000 True True)
        \<lparr>state = ''connected''\<rparr> (accountWith (Some \<lparr>expiry = 2001\<rparr>) None None)))"
  using detectStaleAccountExpiry_invalidates
    [where e = "envAt 2000 True True" and tunnelState = "\<lparr>state = ''disconnected''\<rparr>"
       and a = "accountWith (Some \<lparr>expiry = 1000\<rparr>) None None"]
    detectStaleAccountExpiry_invalidates
    [where e = "envAt 2000 True True" and tunnelState = "\<lparr>state = ''connected''\<rparr>"
       and a = "accountWith (Some \<lparr>expiry = 2000\<rparr>) None None"]
    detectStaleAccountExpiry_invalidates
    [where e = "envAt 2000 True True" and tunnelState = "\<lparr>state = ''connected''\<rparr>"
       and a = "accountWith None None None"]
    detectStaleAccountExpiry_invalidates
    [where e = "envAt 2000 True True" and tunnelState = "\<lparr>state = ''connected''\<rparr>"
       and a = "accountWith (Some \<lparr>expiry = 2001\<rparr>) None None"]
  by (simp add: prod_eq_iff)

section \<open>The stored device state\<close>

text \<open>Every method but \<open>handleDeviceEvent\<close> leaves the stored device state as it is.\<close>

lemma handleAccountExpiry_deviceStateValue:
  "deviceStateValue (snd (handleAccountExpiry e a)) = deviceStateValue a"
  by (simp add: handleAccountExpiry_def Let_def split: option.splits)

lemma accountDataCacheUpdate_deviceStateValue:
  "deviceStateValue (snd (accountDataCacheUpdate e accountData a)) = deviceStateValue a"
  using handleAccountExpiry_deviceStateValue [of e "a\<lparr>accountDataValue := accountData\<rparr>"]
  by (simp add: accountDataCacheUpdate_def Let_def case_prod_beta)

lemma schedulerFired_deviceStateValue:
  "deviceStateValue (snd (schedulerFired e a)) = deviceStateValue a"
  using handleAccountExpiry_deviceStateValue
    [of e "a\<lparr>accountExpiryNotificationScheduler := None\<rparr>"]
  by (simp add: schedulerFired_def split: option.splits scheduled_action.splits)

lemma updateAccountHistorySettled_deviceStateValue:
  "deviceStateValue (snd (updateAccountHistorySettled rpc a)) = deviceStateValue a"
  by (simp add: updateAccountHistorySettled_def setAccountHistory_def split: sum.splits)

lemma updateAccountData_deviceStateValue:
  "deviceStateValue (snd (updateAccountData e a)) = deviceStateValue a"
  by (simp add: updateAccountData_def split: option.splits)

lemma detectStaleAccountExpiry_deviceStateValue:
  "deviceStateValue (snd (detectStaleAccountExpiry e tunnelState a)) = deviceStateValue a"
  by (simp add: detectStaleAccountExpiry_def Let_def)

lemma setAccountHistory_deviceStateValue:
  "deviceStateValue (snd (setAccountHistory accountHistory a)) = deviceStateValue a"
  by (simp add: setAccountHistory_def)

lemma createNewAccount_deviceStateValue:
  "deviceStateValue (snd (snd (createNewAccount rpc a))) = deviceStateValue a"
  by (simp add: createNewAccount_def split: sum.splits)

lemma login_deviceStateValue:
  "deviceStateValue (snd (snd (login e token rpc a))) = deviceStateValue a"
  by (simp add: login_def split: sum.splits)

lemma logout_deviceStateValue:
  "deviceStateValue (snd (snd (logout rpc a))) = deviceStateValue a"
  by (simp add: logout_def split: sum.splits)

lemma handleSubmitVoucher_deviceStateValue:
  "deviceStateValue (snd (snd (handleSubmitVoucher voucherCode rpc a))) = deviceStateValue a"
  by (simp add: handleSubmitVoucher_def Let_def split: sum.splits)

lemma handleClearAccountHistory_deviceStateValue:
  "deviceStateValue (snd (snd (handleClearAccountHistory rpc a))) = deviceStateValue a"
  by (simp add: handleClearAccountHistory_def split: sum.splits)

lemmas frame_deviceStateValue =
  accountDataCacheUpdate_deviceStateValue schedulerFired_deviceStateValue
  updateAccountHistorySettled_deviceStateValue updateAccountData_deviceStateValue
  detectStaleAccountExpiry_deviceStateValue setAccountHistory_deviceStateValue
  createNewAccount_deviceStateValue login_deviceStateValue logout_deviceStateValue
  handleSubmitVoucher_deviceStateValue handleClearAccountHistory_deviceStateValue

lemma handleDeviceEvent_deviceStateValue:
  "deviceStateValue (snd (handleDeviceEvent e deviceEvent a)) = Some (deviceState deviceEvent)"
  by (simp add: handleDeviceEvent_def)

lemma runTask_deviceStateValue:
  "deviceStateValue (snd (runTask t a)) =
     (case t of
        DeviceEventTask e deviceEvent \<Rightarrow> Some (deviceState deviceEvent)
      | _ \<Rightarrow> deviceStateValue a)"
  by (cases t) (simp_all add: frame_deviceStateValue handleDeviceEvent_deviceStateValue)

text \<open>
  After any sequence of tasks the stored device state is the one of the last device
  event among them: induction on the sequence, for every state it starts from.
\<close>

lemma runTasks_deviceStateValue:
  "deviceStateValue (snd (runTasks ts a)) = lastDeviceState ts (deviceStateValue a)"
proof (induction ts arbitrary: a)
  case Nil
  show ?case by simp
next
  case (Cons t ts)
  obtain es a1 where r: "runTask t a = (es, a1)"
    by (cases "runTask t a")
  then have s: "deviceStateValue a1 =
     (case t of
        DeviceEventTask e deviceEvent \<Rightarrow> Some (deviceState deviceEvent)
      | _ \<Rightarrow> deviceStateValue a)"
    using runTask_deviceStateValue [of t a] by simp
  have "deviceStateValue (snd (runTasks (t # ts) a)) = deviceStateValue (snd (runTasks ts a1))"
    by (simp add: r split: prod.splits)
  also have "\<dots> = lastDeviceState ts (deviceStateValue a1)"
    by (rule Cons.IH)
  also have "\<dots> = lastDeviceState (t # ts) (deviceStateValue a)"
    by (cases t) (simp_all add: s)
  finally show ?case .
qed

lemma lastDeviceState_snoc:
  "lastDeviceState (ts @ [DeviceEventTask e deviceEvent]) ds = Some (deviceState deviceEvent)"
  by (induction ts ds rule: lastDeviceState.induct) simp_all

lemma deviceEventTasks_take:
  assumes "0 < n" and "n \<le> length evs"
  shows "deviceEventTasks (take n evs) =
           deviceEventTasks (take (n - 1) evs)
             @ [DeviceEventTask (fst (evs ! (n - 1))) (snd (evs ! (n - 1)))]"
proof -
  from assms have "take n evs = take (n - 1) evs @ [evs ! (n - 1)]"
    by (metis Suc_pred' less_eq_Suc_le take_Suc_conv_app_nth)
  then show ?thesis
    by (simp add: deviceEventTasks_def case_prod_beta)
qed

text \<open>
  C4. A call of \<open>handleDeviceEvent\<close> stores the device state of its event, whatever was
  stored before, the same state included. So for every sequence \<open>evs\<close> of device
  events, after the \<open>n\<close>-th call the stored device state is the one of the \<open>n\<close>-th
  event. The same holds when other tasks run between the events: after any sequence of
  tasks the stored device state is the one of the last device event among them.
\<close>

theorem handleDeviceEvent_last_write_wins:
  "deviceStateValue (snd (handleDeviceEvent e deviceEvent a)) = Some (deviceState deviceEvent)
   \<and> (0 < n \<and> n \<le> length evs \<longrightarrow>
        deviceStateValue (snd (runTasks (deviceEventTasks (take n evs)) a)) =
          Some (deviceState (snd (evs ! (n - 1)))))
   \<and> deviceStateValue (snd (runTasks ts a)) = lastDeviceState ts (deviceStateValue a)"
  by (simp add: handleDeviceEvent_deviceStateValue runTasks_deviceStateValue
        deviceEventTasks_take lastDeviceState_snoc)

theorem handleDeviceEvent_last_write_wins_witness:
  "0 < (2::nat)
   \<and> 2 \<le> length
        [(envAt 1000 False False, \<lparr>deviceState = loggedInAs ''1234''\<rparr>),
         (envAt 1000 False False, \<lparr>deviceState = Revoked\<rparr>),
         (envAt 1000 False False, \<lparr>deviceState = LoggedOut\<rparr>)]
   \<and> deviceStateValue (snd (runTasks (deviceEventTasks (take 2
        [(envAt 1000 False False, \<lparr>deviceState = loggedInAs ''1234''\<rparr>),
         (envAt 1000 False False, \<lparr>deviceState = Revoked\<rparr>),
         (envAt 1000 False False, \<lparr>deviceState = LoggedOut\<rparr>)]))
        (accountWith None None (Some Revoked)))) = Some Revoked"
  using handleDeviceEvent_last_write_wins
    [where n = 2
       and evs = "[(envAt 1000 False False, \<lparr>deviceState = loggedInAs ''1234''\<rparr>),
         (envAt 1000 False False, \<lparr>deviceState = Revoked\<rparr>),
         (envAt 1000 False False, \<lparr>deviceState = LoggedOut\<rparr>)]"
       and a = "accountWith None None (Some Revoked)"
       and e = "envAt 1000 False False" and deviceEvent = "\<lparr>deviceState = Revoked\<rparr>"
       and ts = "[]"]
  by (simp add: deviceEventTasks_def)

text \<open>
  C9. None of the commands \<open>createNewAccount\<close>, \<open>login\<close> and \<open>logout\<close> changes the
  stored device state, whether the call to the daemon succeeds or fails. No task other
  than a device event changes it: \<open>handleDeviceEvent\<close> is its only writer.
\<close>

theorem commands_keep_deviceStateValue:
  "deviceStateValue (snd (snd (createNewAccount rpcCreate a))) = deviceStateValue a
   \<and> deviceStateValue (snd (snd (login e token rpcLogin a))) = deviceStateValue a
   \<and> deviceStateValue (snd (snd (logout rpcLogout a))) = deviceStateValue a
   \<and> (\<not> isDeviceEventTask t \<longrightarrow> deviceStateValue (snd (runTask t a)) = deviceStateValue a)"
  by (cases t) (simp_all add: frame_deviceStateValue)

theorem commands_keep_deviceStateValue_witness:
  "\<not> isDeviceEventTask (LoginTask (envAt 1000 False False) ''5678'' (Inr ()))
   \<and> deviceStateValue (snd (runTask (LoginTask (envAt 1000 False False) ''5678'' (Inr ()))
        (accountWith None (Some (HandleAccountExpiry, 5000)) (Some LoggedOut))))
      = Some LoggedOut
   \<and> deviceStateValue (snd (snd (logout (Inr ())
        (accountWith None (Some (HandleAccountExpiry, 5000)) (Some LoggedOut)))))
      = Some LoggedOut
   \<and> deviceStateValue (snd (snd (createNewAccount (Inl (Error ''offline''))
        (accountWith None (Some (HandleAccountExpiry, 5000)) (Some LoggedOut)))))
      = Some LoggedOut"
  using commands_keep_deviceStateValue
    [where a = "accountWith None (Some (HandleAccountExpiry, 5000)) (Some LoggedOut)"
       and rpcCreate = "Inl (Error ''offline'')" and rpcLogout = "Inr ()"
       and rpcLogin = "Inr ()" and e = "envAt 1000 False False" and token = "''5678''"
       and t = "LoginTask (envAt 1000 False False) ''5678'' (Inr ())"]
  by simp

section \<open>Device events and the cache\<close>

text \<open>
  C5. A call of \<open>handleDeviceEvent\<close> with an event whose device state is logged in
  makes exactly one call on the cache, a fetch for the account token of the event, and
  so no invalidate; a call with an event whose device state is logged out or revoked
  makes exactly one call on the cache, an invalidate, and so no fetch. In either case
  that call comes before the request for the account history, which is sent once.
\<close>

theorem handleDeviceEvent_cache_calls:
  "(deviceState deviceEvent = LoggedIn accountAndDevice \<longrightarrow>
      filter isCacheCall (fst (handleDeviceEvent e deviceEvent a)) =
        [CacheFetch (accountToken accountAndDevice)]
      \<and> issuedBefore (CacheFetch (accountToken accountAndDevice)) RpcGetAccountHistory
          (fst (handleDeviceEvent e deviceEvent a)))
   \<and> (deviceState deviceEvent = LoggedOut \<or> deviceState deviceEvent = Revoked \<longrightarrow>
      filter isCacheCall (fst (handleDeviceEvent e deviceEvent a)) = [CacheInvalidate]
      \<and> issuedBefore CacheInvalidate RpcGetAccountHistory
          (fst (handleDeviceEvent e deviceEvent a)))
   \<and> count_list (fst (handleDeviceEvent e deviceEvent a)) RpcGetAccountHistory = 1"
  by (cases "deviceState deviceEvent")
     (simp_all add: handleDeviceEvent_def updateAccountHistoryCall_def issuedBefore_def)

theorem handleDeviceEvent_cache_calls_witness:
  "deviceState \<lparr>deviceState = loggedInAs ''1234''\<rparr>
     = LoggedIn \<lparr>accountToken = ''1234'', device = ''laptop''\<rparr>
   \<and> fst (handleDeviceEvent (envAt 1000 False False) \<lparr>deviceState = loggedInAs ''1234''\<rparr>
          (accountWith None None None))
      = [CacheFetch ''1234'', RpcGetAccountHistory, DelegateSetTrayContextMenu,
         IpcAccountNotifyDevice \<lparr>deviceState = loggedInAs ''1234''\<rparr>]
   \<and> deviceState \<lparr>deviceState = Revoked\<rparr> = Revoked
   \<and> filter isCacheCall
        (fst (handleDeviceEvent (envAt 1000 False False) \<lparr>deviceState = Revoked\<rparr>
          (accountWith None None (Some (loggedInAs ''1234'')))))
      = [CacheInvalidate]
   \<and> deviceState \<lparr>deviceState = LoggedOut\<rparr> = LoggedOut
   \<and> filter isCacheCall
        (fst (handleDeviceEvent (envAt 1000 False False) \<lparr>deviceState = LoggedOut\<rparr>
          (accountWith None None (Some (loggedInAs ''1234'')))))
      = [CacheInvalidate]"
  using handleDeviceEvent_cache_calls
    [where deviceEvent = "\<lparr>deviceState = loggedInAs ''1234''\<rparr>"
       and accountAndDevice = "\<lparr>accountToken = ''1234'', device = ''laptop''\<rparr>"
       and e = "envAt 1000 False False" and a = "accountWith None None None"]
    handleDeviceEvent_cache_calls
    [where deviceEvent = "\<lparr>deviceState = Revoked\<rparr>"
       and e = "envAt 1000 False False"
       and a = "accountWith None None (Some (loggedInAs ''1234''))"]
    handleDeviceEvent_cache_calls
    [where deviceEvent = "\<lparr>deviceState = LoggedOut\<rparr>"
       and e = "envAt 1000 False False"
       and a = "accountWith None None (Some (loggedInAs ''1234''))"]
  by (simp add: handleDeviceEvent_def updateAccountHistoryCall_def)

section \<open>The commands of the user\<close>

text \<open>
  C6, as the code has it. A call of \<open>logout\<close> whose request to the daemon succeeds
  cancels the schedule of the expiry notification: no callback is pending afterwards.
  When the request fails, the error is logged and thrown on to the caller, and the
  schedule is left as it was.
\<close>

theorem logout_cancels_on_success_only:
  "logout (Inr ()) a =
     (Inr (), [RpcLogoutAccount, SchedulerCancel],
      a\<lparr>accountExpiryNotificationScheduler := None\<rparr>)
   \<and> \<not> isRunning (accountExpiryNotificationScheduler (snd (snd (logout (Inr ()) a))))
   \<and> logout (Inl error) a =
     (Inl error, [RpcLogoutAccount, LogInfo (''Failed to logout: '' @ message error)], a)"
  by (simp add: logout_def cancel_def isRunning_def)

theorem logout_cancels_on_success_only_witness:
  "logout (Inr ())
     (accountWith None (Some (HandleAccountExpiry, 5000)) (Some (loggedInAs ''1234'')))
    = (Inr (), [RpcLogoutAccount, SchedulerCancel],
       accountWith None None (Some (loggedInAs ''1234'')))
   \<and> logout (Inl (Error ''offline''))
     (accountWith None (Some (HandleAccountExpiry, 5000)) (Some (loggedInAs ''1234'')))
    = (Inl (Error ''offline''), [RpcLogoutAccount, LogInfo ''Failed to logout: offline''],
       accountWith None (Some (HandleAccountExpiry, 5000)) (Some (loggedInAs ''1234'')))"
  using logout_cancels_on_success_only
    [where a = "accountWith None (Some (HandleAccountExpiry, 5000)) (Some (loggedInAs ''1234''))"
       and error = "Error ''offline''"]
  by simp

text \<open>
  C6, as the claim has it, fails: a call of \<open>logout\<close> whose request to the daemon fails
  while a callback is pending makes no call of \<open>cancel\<close>, and the callback is still
  pending afterwards.
\<close>

theorem logout_failure_counterexample:
  "isRunning (accountExpiryNotificationScheduler
      (accountWith None (Some (HandleAccountExpiry, 5000)) (Some (loggedInAs ''1234''))))
   \<and> logout (Inl (Error ''offline''))
        (accountWith None (Some (HandleAccountExpiry, 5000)) (Some (loggedInAs ''1234'')))
     = (Inl (Error ''offline''),
        [RpcLogoutAccount, LogInfo ''Failed to logout: offline''],
        accountWith None (Some (HandleAccountExpiry, 5000)) (Some (loggedInAs ''1234'')))
   \<and> SchedulerCancel \<notin> set (fst (snd (logout (Inl (Error ''offline''))
        (accountWith None (Some (HandleAccountExpiry, 5000)) (Some (loggedInAs ''1234''))))))
   \<and> isRunning (accountExpiryNotificationScheduler (snd (snd (logout (Inl (Error ''offline''))
        (accountWith None (Some (HandleAccountExpiry, 5000)) (Some (loggedInAs ''1234'')))))))"
  by (simp add: logout_def isRunning_def)

text \<open>
  C7. When the request of \<open>login\<close> fails with an \<open>InvalidAccountError\<close>, the caller gets
  a plain error with the translation of \<open>Invalid account number\<close> as its message, not
  the error of the daemon. When it fails with any other error, the caller gets that
  error. When it succeeds, the caller gets no error. Every failure is logged.
\<close>

theorem login_outcome:
  "fst (login e token (Inl (InvalidAccountError m)) a) =
     Inl (Error (gettext e ''Invalid account number''))
   \<and> fst (login e token (Inl (InvalidAccountError m)) a) \<noteq> Inl (InvalidAccountError m)
   \<and> ((\<forall>m'. error \<noteq> InvalidAccountError m') \<longrightarrow>
        fst (login e token (Inl error) a) = Inl error)
   \<and> fst (login e token (Inr ()) a) = Inr ()
   \<and> fst (snd (login e token (Inl error) a)) =
        [RpcLoginAccount token, LogError (''Failed to login: '' @ message error)]"
  by (cases error) (simp_all add: login_def)

theorem login_outcome_witness:
  "(\<forall>m'. OtherError ''TypeError'' ''offline'' \<noteq> InvalidAccountError m')
   \<and> fst (login (envAt 1000 False False) ''invalid''
          (Inl (OtherError ''TypeError'' ''offline'')) (accountWith None None (Some LoggedOut)))
      = Inl (OtherError ''TypeError'' ''offline'')
   \<and> fst (login (envAt 1000 False False) ''invalid''
          (Inl (InvalidAccountError ''no such account''))
          (accountWith None None (Some LoggedOut)))
      = Inl (Error ''Invalid account number'')"
  using login_outcome
    [where e = "envAt 1000 False False" and token = "''invalid''"
       and m = "''no such account''" and a = "accountWith None None (Some LoggedOut)"
       and error = "OtherError ''TypeError'' ''offline''"]
  by simp



end
